theory Spec2Isabelle
  imports Main
begin

section \<open>Python values used by \<open>main.py\<close>\<close>

text \<open>
  A Python \<open>str\<close> is a sequence of Unicode code points, and iterating over it yields
  one code point at a time. A code point is its number; \<open>str\<close> below turns an ASCII
  literal into that representation.
\<close>

type_synonym codepoint = nat
type_synonym pystr = "codepoint list"

definition str :: "string \<Rightarrow> pystr" where
  "str cs = map of_char cs"

datatype py_error = ValueError | ZeroDivisionError

text \<open>
  \<open>str.isdigit\<close> and \<open>int\<close> read the numeric type of a character from the
  interpreter's Unicode character database: \<open>Decimal v\<close> is Numeric_Type=Decimal
  (a digit of a positional decimal script, value \<open>v\<close>), \<open>Digit v\<close> is
  Numeric_Type=Digit (a digit in a compatibility form, such as the superscript digits:
  it counts as a digit for \<open>isdigit\<close> and cannot form a number for \<open>int\<close>),
  \<open>NoDigit\<close> is every other character.
\<close>

datatype numeric_type = Decimal nat | Digit nat | NoDigit

text \<open>
  The rows of the database for U+0000 to U+00FF are the same in every Unicode version:
  the ASCII digits are decimal, and SUPERSCRIPT TWO (U+00B2), SUPERSCRIPT THREE (U+00B3)
  and SUPERSCRIPT ONE (U+00B9) are the only other digits.
\<close>

definition latin1_numeric :: "codepoint \<Rightarrow> numeric_type" where
  "latin1_numeric c =
     (if 48 \<le> c \<and> c \<le> 57 then Decimal (c - 48)
      else if c = 178 then Digit 2
      else if c = 179 then Digit 3
      else if c = 185 then Digit 1
      else NoDigit)"

text \<open>
  The rows above U+00FF depend on the Unicode version of the interpreter and are not
  part of the repository: they are the parameter \<open>ucd\<close> of everything that reads
  them.
\<close>

type_synonym unicode_db = "codepoint \<Rightarrow> numeric_type"

definition numeric :: "unicode_db \<Rightarrow> codepoint \<Rightarrow> numeric_type" where
  "numeric ucd c = (if c < 256 then latin1_numeric c else ucd c)"

text \<open>\<open>d.isdigit()\<close> for a one-character string \<open>d\<close>.\<close>

definition isdigit :: "unicode_db \<Rightarrow> codepoint \<Rightarrow> bool" where
  "isdigit ucd d = (case numeric ucd d of NoDigit \<Rightarrow> False | _ \<Rightarrow> True)"

text \<open>
  \<open>int(d)\<close> for a one-character string \<open>d\<close>: the value of a decimal digit, and
  \<open>ValueError\<close> (invalid literal for int() with base 10) for anything else.
\<close>

definition py_int :: "unicode_db \<Rightarrow> codepoint \<Rightarrow> py_error + int" where
  "py_int ucd d = (case numeric ucd d of Decimal v \<Rightarrow> Inr (int v) | _ \<Rightarrow> Inl ValueError)"

section \<open>The Luhn validator\<close>

text \<open>
  \<^verbatim>\<open>digits = [int(d) for d in card_number if d.isdigit()]\<close>

  The comprehension runs left to right and stops at the first \<open>int(d)\<close> that raises.
\<close>

fun digits_of :: "unicode_db \<Rightarrow> pystr \<Rightarrow> py_error + int list" where
  "digits_of ucd [] = Inr []"
| "digits_of ucd (d # card_number) =
     (if isdigit ucd d then
        (case py_int ucd d of
           Inl e \<Rightarrow> Inl e
         | Inr v \<Rightarrow>
             (case digits_of ucd card_number of
                Inl e \<Rightarrow> Inl e
              | Inr vs \<Rightarrow> Inr (v # vs)))
      else digits_of ucd card_number)"

text \<open>
  The body of \<^verbatim>\<open>for i, d in enumerate(digits)\<close>: the digit as it is added to
  the checksum.
\<close>

definition luhn_digit :: "nat \<Rightarrow> nat \<Rightarrow> int \<Rightarrow> int" where
  "luhn_digit parity i d =
     (if i mod 2 = parity then
        (let d2 = d * 2 in if d2 > 9 then d2 - 9 else d2)
      else d)"

text \<open>The loop, from index \<open>i\<close> with the running \<open>checksum\<close>.\<close>

fun luhn_loop :: "nat \<Rightarrow> nat \<Rightarrow> int list \<Rightarrow> int \<Rightarrow> int" where
  "luhn_loop parity i [] checksum = checksum"
| "luhn_loop parity i (d # digits) checksum =
     luhn_loop parity (Suc i) digits (checksum + luhn_digit parity i d)"

definition luhn_check :: "unicode_db \<Rightarrow> pystr \<Rightarrow> py_error + bool" where
  "luhn_check ucd card_number =
     (case digits_of ucd card_number of
        Inl e \<Rightarrow> Inl e
      | Inr digits \<Rightarrow>
          if length digits < 12 then Inr False
          else
            (let parity = length digits mod 2;
                 checksum = luhn_loop parity 0 digits 0
             in Inr (checksum mod 10 = 0)))"

text \<open>
  The checksum as the specification words it: the digits are read from the most
  significant one, the digit at index \<open>i\<close> is doubled when the parity of \<open>i\<close> is the
  parity of the number of digits, a doubled digit above 9 loses 9, and everything is
  summed.
\<close>

definition luhn_sum_spec :: "int list \<Rightarrow> int" where
  "luhn_sum_spec ds =
     (\<Sum>i<length ds.
        if i mod 2 = length ds mod 2
        then (if 2 * (ds ! i) > 9 then 2 * (ds ! i) - 9 else 2 * (ds ! i))
        else ds ! i)"

text \<open>
  Two readings of "the digits that remain after discarding non-digit characters":
  the values of the decimal digits alone, and the values of every character that
  \<open>isdigit\<close> keeps. \<open>compat_digit\<close> holds of the characters on which they differ.
\<close>

fun decimal_values :: "unicode_db \<Rightarrow> pystr \<Rightarrow> int list" where
  "decimal_values ucd [] = []"
| "decimal_values ucd (c # cs) =
     (case numeric ucd c of
        Decimal v \<Rightarrow> int v # decimal_values ucd cs
      | Digit v \<Rightarrow> decimal_values ucd cs
      | NoDigit \<Rightarrow> decimal_values ucd cs)"

fun digit_values :: "unicode_db \<Rightarrow> pystr \<Rightarrow> int list" where
  "digit_values ucd [] = []"
| "digit_values ucd (c # cs) =
     (case numeric ucd c of
        Decimal v \<Rightarrow> int v # digit_values ucd cs
      | Digit v \<Rightarrow> int v # digit_values ucd cs
      | NoDigit \<Rightarrow> digit_values ucd cs)"

definition compat_digit :: "unicode_db \<Rightarrow> codepoint \<Rightarrow> bool" where
  "compat_digit ucd c = (case numeric ucd c of Digit v \<Rightarrow> True | _ \<Rightarrow> False)"

text \<open>
  \<open>d.isdecimal()\<close> for a one-character string \<open>d\<close>: the digits that \<open>int\<close>
  converts. The source does not call it; it is the test behind the reading of
  "digit character" as decimal digit.
\<close>

definition isdecimal :: "unicode_db \<Rightarrow> codepoint \<Rightarrow> bool" where
  "isdecimal ucd d = (case numeric ucd d of Decimal v \<Rightarrow> True | _ \<Rightarrow> False)"

section \<open>Station availability\<close>

text \<open>
  The body of the loop of \<open>list_stations\<close>:
  \<^verbatim>\<open>
  capacity = it.get("capacity", 4)
  occupied = (now % (capacity + 1))
  available = max(0, capacity - occupied)
  \<close>
  \<open>now\<close> is \<open>datetime.utcnow().second\<close>; the argument \<open>cap\<close> is the document's
  \<open>capacity\<close> key when it has one. Python's \<open>%\<close> on integers takes the sign of the
  divisor, as \<open>mod\<close> on \<open>int\<close> does, and raises for a zero divisor.
\<close>

definition station_available :: "int \<Rightarrow> int option \<Rightarrow> py_error + int" where
  "station_available now cap =
     (let capacity = (case cap of None \<Rightarrow> 4 | Some c \<Rightarrow> c) in
      if capacity + 1 = 0 then Inl ZeroDivisionError
      else
        (let occupied = now mod (capacity + 1);
             available = max 0 (capacity - occupied)
         in Inr available))"

text \<open>
  A station document as \<open>get_documents\<close> returns it, reduced to what the handler
  reads: \<open>doc_oid\<close> is \<open>str(it.get("_id"))\<close> and \<open>doc_capacity\<close> is the
  \<open>capacity\<close> key when the document has one. \<open>station_view\<close> is the document after
  the handler has stored \<open>available\<close> and \<open>id\<close> (here \<open>view_id\<close>) in it.
\<close>

record station_doc =
  doc_oid :: pystr
  doc_capacity :: "int option"

record station_view = station_doc +
  available :: int
  view_id :: pystr

fun list_stations_loop :: "int \<Rightarrow> station_doc list \<Rightarrow> py_error + station_view list" where
  "list_stations_loop now [] = Inr []"
| "list_stations_loop now (it # items) =
     (case station_available now (doc_capacity it) of
        Inl e \<Rightarrow> Inl e
      | Inr a \<Rightarrow>
          (case list_stations_loop now items of
             Inl e \<Rightarrow> Inl e
           | Inr result \<Rightarrow>
               Inr (\<lparr>doc_oid = doc_oid it, doc_capacity = doc_capacity it,
                     available = a, view_id = doc_oid it\<rparr> # result)))"

text \<open>Any exception inside the handler becomes an HTTP error with status 500.\<close>

datatype http_error = HTTPException nat

definition list_stations :: "int \<Rightarrow> station_doc list \<Rightarrow> http_error + station_view list" where
  "list_stations now items =
     (case list_stations_loop now items of
        Inl e \<Rightarrow> Inl (HTTPException 500)
      | Inr result \<Rightarrow> Inr result)"

section \<open>Payment confirmation\<close>

record PaymentConfirmIn =
  client_secret :: pystr
  card_number :: pystr
  exp_month :: int
  exp_year :: int
  cvc :: pystr

record PaymentResult =
  status :: pystr
  transaction_id :: "pystr option"
  message :: "pystr option"

text \<open>
  \<open>uuid_hex\<close> is the value of \<open>uuid4().hex\<close> that the call draws: 32 hexadecimal
  characters. An exception of \<open>luhn_check\<close> is not caught and leaves the handler.
\<close>

definition confirm_payment ::
  "unicode_db \<Rightarrow> pystr \<Rightarrow> PaymentConfirmIn \<Rightarrow> py_error + PaymentResult" where
  "confirm_payment ucd uuid_hex payload =
     (case luhn_check ucd (card_number payload) of
        Inl e \<Rightarrow> Inl e
      | Inr valid \<Rightarrow>
          if \<not> valid then
            Inr \<lparr>status = str ''failed'', transaction_id = None,
                 message = Some (str ''Invalid card number'')\<rparr>
          else
            (let txn_id = str ''txn_'' @ take 12 uuid_hex
             in Inr \<lparr>status = str ''succeeded'', transaction_id = Some txn_id,
                     message = Some (str ''Payment confirmed'')\<rparr>))"

section \<open>The loop computes the specified sum\<close>

lemma luhn_loop_sum:
  "luhn_loop parity i ds acc = acc + (\<Sum>j<length ds. luhn_digit parity (i + j) (ds ! j))"
proof (induction ds arbitrary: i acc)
  case Nil
  show ?case by simp
next
  case (Cons d ds)
  show ?case
    by (simp add: Cons.IH sum.lessThan_Suc_shift del: sum.lessThan_Suc)
qed

lemma luhn_loop_spec:
  "luhn_loop (length ds mod 2) 0 ds 0 = luhn_sum_spec ds"
proof -
  have "luhn_digit (length ds mod 2) j (ds ! j) =
        (if j mod 2 = length ds mod 2
         then (if 2 * (ds ! j) > 9 then 2 * (ds ! j) - 9 else 2 * (ds ! j))
         else ds ! j)" for j
    by (simp add: luhn_digit_def Let_def mult.commute)
  then show ?thesis
    by (simp add: luhn_loop_sum luhn_sum_spec_def)
qed

section \<open>The comprehension\<close>

lemma digits_of_decimal:
  "\<not> list_ex (compat_digit ucd) s \<Longrightarrow> digits_of ucd s = Inr (decimal_values ucd s)"
  by (induction s)
     (auto simp: isdigit_def py_int_def compat_digit_def split: numeric_type.splits)

lemma digits_of_compat:
  "list_ex (compat_digit ucd) s \<Longrightarrow> digits_of ucd s = Inl ValueError"
  by (induction s)
     (auto simp: isdigit_def py_int_def compat_digit_def split: numeric_type.splits sum.splits)

lemma digits_of_filter:
  "digits_of ucd (filter (isdigit ucd) s) = digits_of ucd s"
  by (induction s) (auto split: sum.splits)

lemma digits_of_filter_isdecimal:
  "\<not> list_ex (compat_digit ucd) s \<Longrightarrow>
   digits_of ucd (filter (isdecimal ucd) s) = digits_of ucd s"
  by (induction s)
     (auto simp: isdigit_def isdecimal_def py_int_def compat_digit_def
           split: numeric_type.splits sum.splits)

lemma decimal_values_eq_digit_values:
  "\<not> list_ex (compat_digit ucd) s \<Longrightarrow> decimal_values ucd s = digit_values ucd s"
  by (induction s) (auto simp: compat_digit_def split: numeric_type.splits)

lemma length_digit_values:
  "length (digit_values ucd s) = length (filter (isdigit ucd) s)"
  by (induction s) (auto simp: isdigit_def split: numeric_type.splits)

text \<open>
  What \<open>luhn_check\<close> does on every string: it raises exactly when the string holds a
  digit that is not decimal, and otherwise returns the verdict of the specification on
  the decimal digits.
\<close>

lemma luhn_check_raises:
  "list_ex (compat_digit ucd) s \<Longrightarrow> luhn_check ucd s = Inl ValueError"
  by (simp add: luhn_check_def digits_of_compat)

lemma luhn_check_decimal:
  "\<not> list_ex (compat_digit ucd) s \<Longrightarrow>
   luhn_check ucd s =
     Inr (12 \<le> length (decimal_values ucd s) \<and>
          luhn_sum_spec (decimal_values ucd s) mod 10 = 0)"
  by (simp add: luhn_check_def digits_of_decimal luhn_loop_spec Let_def not_less)

lemma luhn_check_short_decimal:
  "\<not> list_ex (compat_digit ucd) s \<Longrightarrow> length (filter (isdigit ucd) s) < 12 \<Longrightarrow>
   luhn_check ucd s = Inr False"
  by (simp add: luhn_check_decimal decimal_values_eq_digit_values length_digit_values)

lemma luhn_check_total:
  "luhn_check ucd s = Inl ValueError \<or> luhn_check ucd s = Inr True \<or>
   luhn_check ucd s = Inr False"
  by (cases "list_ex (compat_digit ucd) s") (auto simp: luhn_check_raises luhn_check_decimal)

text \<open>
  Removing the characters that are not digits leaves the outcome as it is: always when
  "digit" is \<open>isdigit\<close> (the outcome being the boolean or the exception), and on
  the strings without compatibility digits when "digit" is decimal digit.
\<close>

lemma luhn_check_filter_isdigit:
  "luhn_check ucd (filter (isdigit ucd) s) = luhn_check ucd s"
  by (simp add: luhn_check_def digits_of_filter)

lemma luhn_check_filter_isdecimal:
  "\<not> list_ex (compat_digit ucd) s \<Longrightarrow>
   luhn_check ucd (filter (isdecimal ucd) s) = luhn_check ucd s"
  by (simp add: luhn_check_def digits_of_filter_isdecimal)

lemma digits_of_cong:
  "list_all (\<lambda>c. numeric ucd c = numeric ucd' c) s \<Longrightarrow> digits_of ucd s = digits_of ucd' s"
  by (induction s) (auto simp: isdigit_def py_int_def split: sum.splits)

text \<open>
  The outcome depends on the string and on the numeric types of its own characters,
  and on nothing else.
\<close>

lemma luhn_check_cong:
  "list_all (\<lambda>c. numeric ucd c = numeric ucd' c) s \<Longrightarrow> luhn_check ucd s = luhn_check ucd' s"
  by (simp add: luhn_check_def digits_of_cong)

section \<open>The handlers\<close>

lemma confirm_payment_gate:
  "confirm_payment ucd uuid_hex payload =
     (case luhn_check ucd (card_number payload) of
        Inl e \<Rightarrow> Inl e
      | Inr True \<Rightarrow>
          Inr \<lparr>status = str ''succeeded'',
               transaction_id = Some (str ''txn_'' @ take 12 uuid_hex),
               message = Some (str ''Payment confirmed'')\<rparr>
      | Inr False \<Rightarrow>
          Inr \<lparr>status = str ''failed'', transaction_id = None,
               message = Some (str ''Invalid card number'')\<rparr>)"
  by (simp add: confirm_payment_def Let_def split: sum.splits bool.splits)

lemma txn_id_nonempty: "str ''txn_'' @ take 12 uuid_hex \<noteq> []"
  by (simp add: str_def)

lemma list_stations_available:
  "list_all (\<lambda>it. case doc_capacity it of None \<Rightarrow> True | Some c \<Rightarrow> 1 \<le> c) items \<Longrightarrow>
   list_stations now items =
     Inr (map (\<lambda>it. \<lparr>doc_oid = doc_oid it, doc_capacity = doc_capacity it,
                      available = (case doc_capacity it of None \<Rightarrow> 4 - now mod 5
                                   | Some c \<Rightarrow> max 0 (c - now mod (c + 1))),
                      view_id = doc_oid it\<rparr>) items)"
  by (induction items)
     (auto simp: list_stations_def station_available_def Let_def split: option.splits sum.splits)

section \<open>The claims\<close>

lemmas luhn_eval_defs =
  luhn_check_def str_def isdigit_def py_int_def numeric_def latin1_numeric_def luhn_digit_def

text \<open>
  C1. On every string that keeps at least 12 digits, \<open>luhn_check\<close> should return true
  exactly when the Luhn sum of the digits is divisible by 10. Where no digit is a
  compatibility digit this is \<open>luhn_check_decimal\<close>. It fails on the string made of
  U+00B3, U+00B3, U+00B9 and 4242424242424242: the sixteen decimal digits have the sum
  80, the nineteen digits that \<open>isdigit\<close> keeps have the sum 90, so either way the
  verdict should be true, and the call raises \<open>ValueError\<close> instead.
\<close>

theorem luhn_check_raises_on_superscript_prefix:
  "luhn_check ucd ([179, 179, 185] @ str ''4242424242424242'') = Inl ValueError
   \<and> decimal_values ucd ([179, 179, 185] @ str ''4242424242424242'')
       = [4, 2, 4, 2, 4, 2, 4, 2, 4, 2, 4, 2, 4, 2, 4, 2]
   \<and> luhn_sum_spec [4, 2, 4, 2, 4, 2, 4, 2, 4, 2, 4, 2, 4, 2, 4, 2] = 80
   \<and> digit_values ucd ([179, 179, 185] @ str ''4242424242424242'')
       = [3, 3, 1, 4, 2, 4, 2, 4, 2, 4, 2, 4, 2, 4, 2, 4, 2, 4, 2]
   \<and> luhn_sum_spec [3, 3, 1, 4, 2, 4, 2, 4, 2, 4, 2, 4, 2, 4, 2, 4, 2, 4, 2] = 90"
proof -
  have a: "luhn_check ucd ([179, 179, 185] @ str ''4242424242424242'') = Inl ValueError"
    by (simp add: luhn_eval_defs)
  have b: "decimal_values ucd ([179, 179, 185] @ str ''4242424242424242'')
       = [4, 2, 4, 2, 4, 2, 4, 2, 4, 2, 4, 2, 4, 2, 4, 2]"
    by (simp add: str_def numeric_def latin1_numeric_def)
  have c: "luhn_sum_spec [4, 2, 4, 2, 4, 2, 4, 2, 4, 2, 4, 2, 4, 2, 4, 2] = 80"
    by (simp add: luhn_loop_spec [symmetric] luhn_digit_def)
  have d: "digit_values ucd ([179, 179, 185] @ str ''4242424242424242'')
       = [3, 3, 1, 4, 2, 4, 2, 4, 2, 4, 2, 4, 2, 4, 2, 4, 2, 4, 2]"
    by (simp add: str_def numeric_def latin1_numeric_def)
  have e: "luhn_sum_spec [3, 3, 1, 4, 2, 4, 2, 4, 2, 4, 2, 4, 2, 4, 2, 4, 2, 4, 2] = 90"
    by (simp add: luhn_loop_spec [symmetric] luhn_digit_def)
  from a b c d e show ?thesis by (simp only: simp_thms)
qed

text \<open>
  C2. On every string with fewer than 12 digit characters \<open>luhn_check\<close> should return
  false. Where no digit is a compatibility digit this is \<open>luhn_check_short_decimal\<close>.
  It fails on the one-character string U+00B2 (SUPERSCRIPT TWO): the string has one
  digit character for \<open>isdigit\<close> and no decimal digit, and the call raises
  \<open>ValueError\<close> before the length is looked at.
\<close>

theorem luhn_check_raises_on_short_input:
  "length (filter (isdigit ucd) [178]) = 1 \<and> decimal_values ucd [178] = []
   \<and> luhn_check ucd [178] = Inl ValueError"
  by (simp add: luhn_eval_defs)

text \<open>
  C3. The result of \<open>luhn_check\<close> on a string should be its result on the string
  with every non-digit character removed, the removed characters being silently
  discarded. For 4242-4242-4242-4242 and 4242424242424242 it is: both give true. On
  strings without compatibility digits it is \<open>luhn_check_filter_isdecimal\<close>. It
  fails on 4242424242424242 followed by U+00B2. With "digit" as decimal digit, the
  stripped string is the bare card number, on which the call returns true, and on
  the string itself the call raises \<open>ValueError\<close>. With "digit" as \<open>isdigit\<close>,
  the stripped string is the string itself, and neither call yields a result.
\<close>

theorem luhn_check_strip_raises_on_superscript:
  "filter (isdecimal ucd) (str ''4242424242424242'' @ [178]) = str ''4242424242424242''
   \<and> luhn_check ucd (str ''4242424242424242'') = Inr True
   \<and> filter (isdigit ucd) (str ''4242424242424242'' @ [178]) = str ''4242424242424242'' @ [178]
   \<and> luhn_check ucd (str ''4242424242424242'' @ [178]) = Inl ValueError
   \<and> luhn_check ucd (str ''4242-4242-4242-4242'') = Inr True"
proof (intro conjI)
  show "filter (isdecimal ucd) (str ''4242424242424242'' @ [178]) = str ''4242424242424242''"
    by (simp add: isdecimal_def str_def numeric_def latin1_numeric_def)
  show "luhn_check ucd (str ''4242424242424242'') = Inr True"
    by (simp add: luhn_eval_defs)
  show "filter (isdigit ucd) (str ''4242424242424242'' @ [178]) = str ''4242424242424242'' @ [178]"
    by (simp add: isdigit_def str_def numeric_def latin1_numeric_def)
  show "luhn_check ucd (str ''4242424242424242'' @ [178]) = Inl ValueError"
    by (simp add: luhn_eval_defs)
  show "luhn_check ucd (str ''4242-4242-4242-4242'') = Inr True"
    by (simp add: luhn_eval_defs)
qed

text \<open>
  C4. \<open>luhn_check\<close> should return a boolean on every string and never raise. By
  \<open>luhn_check_total\<close> it always ends, with a boolean or with \<open>ValueError\<close>; by
  \<open>luhn_check_raises\<close> it raises on every string that holds a compatibility digit,
  such as a valid card number followed by U+00B2.
\<close>

theorem luhn_check_raises_on_trailing_superscript:
  "luhn_check ucd (str ''4242424242424242'' @ [178]) = Inl ValueError"
  by (simp add: luhn_eval_defs)

text \<open>
  C5. \<open>confirm_payment\<close> should answer every payload with a result: succeeded with a
  transaction id when \<open>luhn_check\<close> accepts the card number, failed with the message
  "Invalid card number" and no transaction id otherwise. Where \<open>luhn_check\<close> returns,
  this is \<open>confirm_payment_gate\<close> with \<open>txn_id_nonempty\<close>. On a card number that
  is the one character U+00B2 the handler returns no result: the \<open>ValueError\<close> of
  \<open>luhn_check\<close> leaves it.
\<close>

theorem confirm_payment_raises_on_superscript:
  "confirm_payment ucd uuid_hex
     \<lparr>client_secret = str ''pi_0'', card_number = [178], exp_month = 12, exp_year = 2030,
      cvc = str ''123''\<rparr> = Inl ValueError"
  by (simp add: confirm_payment_def luhn_eval_defs)

text \<open>
  C6. Two payloads with the same card number get the same status and the same message
  from \<open>confirm_payment\<close> (or the same exception), whatever their client secret,
  expiry and CVC are and whatever identifier each call draws.
\<close>

theorem confirm_payment_card_number_only:
  "card_number p = card_number q \<Longrightarrow>
   map_sum id (\<lambda>r. (status r, message r)) (confirm_payment ucd h1 p) =
   map_sum id (\<lambda>r. (status r, message r)) (confirm_payment ucd h2 q)"
  by (simp add: confirm_payment_def Let_def split: sum.splits)

theorem confirm_payment_card_number_only_witness:
  "card_number \<lparr>client_secret = str ''pi_a'', card_number = str ''4242424242424242'',
                 exp_month = 1, exp_year = 2030, cvc = str ''123''\<rparr>
   = card_number \<lparr>client_secret = str ''pi_b'', card_number = str ''4242424242424242'',
                   exp_month = 12, exp_year = 1999, cvc = str ''x''\<rparr>
   \<and> map_sum id (\<lambda>r. (status r, message r))
        (confirm_payment (\<lambda>c. NoDigit) (str ''0123456789abcdef0123456789abcdef'')
           \<lparr>client_secret = str ''pi_a'', card_number = str ''4242424242424242'',
            exp_month = 1, exp_year = 2030, cvc = str ''123''\<rparr>)
     = map_sum id (\<lambda>r. (status r, message r))
        (confirm_payment (\<lambda>c. NoDigit) (str ''fedcba9876543210fedcba9876543210'')
           \<lparr>client_secret = str ''pi_b'', card_number = str ''4242424242424242'',
            exp_month = 12, exp_year = 1999, cvc = str ''x''\<rparr>)
   \<and> confirm_payment (\<lambda>c. NoDigit) (str ''0123456789abcdef0123456789abcdef'')
           \<lparr>client_secret = str ''pi_a'', card_number = str ''4242424242424242'',
            exp_month = 1, exp_year = 2030, cvc = str ''123''\<rparr>
       = Inr \<lparr>status = str ''succeeded'', transaction_id = Some (str ''txn_0123456789ab''),
              message = Some (str ''Payment confirmed'')\<rparr>"
proof (intro conjI)
  show "card_number \<lparr>client_secret = str ''pi_a'', card_number = str ''4242424242424242'',
                 exp_month = 1, exp_year = 2030, cvc = str ''123''\<rparr>
   = card_number \<lparr>client_secret = str ''pi_b'', card_number = str ''4242424242424242'',
                   exp_month = 12, exp_year = 1999, cvc = str ''x''\<rparr>"
    by simp
  then show "map_sum id (\<lambda>r. (status r, message r))
        (confirm_payment (\<lambda>c. NoDigit) (str ''0123456789abcdef0123456789abcdef'')
           \<lparr>client_secret = str ''pi_a'', card_number = str ''4242424242424242'',
            exp_month = 1, exp_year = 2030, cvc = str ''123''\<rparr>)
     = map_sum id (\<lambda>r. (status r, message r))
        (confirm_payment (\<lambda>c. NoDigit) (str ''fedcba9876543210fedcba9876543210'')
           \<lparr>client_secret = str ''pi_b'', card_number = str ''4242424242424242'',
            exp_month = 12, exp_year = 1999, cvc = str ''x''\<rparr>)"
    by (rule confirm_payment_card_number_only)
  show "confirm_payment (\<lambda>c. NoDigit) (str ''0123456789abcdef0123456789abcdef'')
           \<lparr>client_secret = str ''pi_a'', card_number = str ''4242424242424242'',
            exp_month = 1, exp_year = 2030, cvc = str ''123''\<rparr>
       = Inr \<lparr>status = str ''succeeded'', transaction_id = Some (str ''txn_0123456789ab''),
              message = Some (str ''Payment confirmed'')\<rparr>"
    by (simp add: confirm_payment_def luhn_eval_defs)
qed

text \<open>
  C7. \<open>luhn_check\<close> returns true for the test card number 4242424242424242 and false
  for 4242424242424241, which differs from it in the last digit.
\<close>

theorem luhn_check_test_cards:
  "luhn_check ucd (str ''4242424242424242'') = Inr True
   \<and> luhn_check ucd (str ''4242424242424241'') = Inr False"
  by (simp add: luhn_eval_defs)

text \<open>
  C8. \<open>luhn_check\<close> returns true for 000000000000: the string has exactly 12 digits,
  all of them are kept, the checksum of the loop is 0, and 0 is divisible by 10.
\<close>

theorem luhn_check_twelve_zeros:
  "length (str ''000000000000'') = 12
   \<and> digits_of ucd (str ''000000000000'') = Inr [0, 0, 0, 0, 0, 0, 0, 0, 0, 0, 0, 0]
   \<and> luhn_loop 0 0 [0, 0, 0, 0, 0, 0, 0, 0, 0, 0, 0, 0] 0 = 0
   \<and> luhn_check ucd (str ''000000000000'') = Inr True"
  by (simp add: luhn_eval_defs)

text \<open>
  C10. For a station of capacity \<open>c \<ge> 1\<close> and a second \<open>s\<close> of the clock between 0
  and 59, \<open>occupied = s mod (c + 1)\<close> lies between 0 and \<open>c\<close>, the handler computes
  \<open>available = c - occupied\<close> without raising, \<open>max\<close> leaves that difference as it
  is, and \<open>0 \<le> available \<le> c\<close>.
\<close>

theorem station_available_in_range:
  "1 \<le> c \<Longrightarrow> 0 \<le> s \<Longrightarrow> s \<le> 59 \<Longrightarrow>
   0 \<le> s mod (c + 1) \<and> s mod (c + 1) \<le> c
   \<and> station_available s (Some c) = Inr (c - s mod (c + 1))
   \<and> 0 \<le> c - s mod (c + 1) \<and> c - s mod (c + 1) \<le> c"
proof -
  assume c: "1 \<le> c" and "0 \<le> s" "s \<le> 59"
  have pos: "0 < c + 1" using c by simp
  have lo: "0 \<le> s mod (c + 1)" using pos by (rule pos_mod_sign)
  have "s mod (c + 1) < c + 1" using pos by (rule pos_mod_bound)
  then have hi: "s mod (c + 1) \<le> c" by simp
  have "station_available s (Some c) = Inr (c - s mod (c + 1))"
    using c hi by (simp add: station_available_def Let_def)
  with lo hi show ?thesis by simp
qed

theorem station_available_in_range_witness:
  "(1::int) \<le> 6 \<and> (0::int) \<le> 59 \<and> (59::int) \<le> 59
   \<and> station_available 59 (Some 6) = Inr 3 \<and> (0::int) \<le> 3 \<and> (3::int) \<le> 6"
  using station_available_in_range [of 6 59] by simp

end
